theory Spec2Isabelle
  imports Main
begin

section \<open>The storage tree\<close>

text \<open>
  The cache keeps its objects, digest sidecars and temp artifacts as plain files under the
  storage directory. The tree is an association list from path names to nodes; the first
  entry of a name is the one that counts. Only what \<^verbatim>\<open>main.go\<close> observes of a node is
  kept: whether it is a directory, and the bytes of a regular file (whose number is the
  size \<^verbatim>\<open>os.Stat\<close> reports).
\<close>

datatype node = Dir | File string

type_synonym fs = "(string \<times> node) list"

definition lookup :: "fs \<Rightarrow> string \<Rightarrow> node option" where
  "lookup files path = map_of files path"

text \<open>\<^verbatim>\<open>os.Remove\<close>: the name is gone afterwards. The source ignores its result.\<close>

definition osRemove :: "string \<Rightarrow> fs \<Rightarrow> fs" where
  "osRemove path files = filter (\<lambda>e. fst e \<noteq> path) files"

text \<open>Creating or overwriting a regular file (\<^verbatim>\<open>os.Create\<close>, \<^verbatim>\<open>os.WriteFile\<close>, the copy).\<close>

definition writeNode :: "string \<Rightarrow> node \<Rightarrow> fs \<Rightarrow> fs" where
  "writeNode path n files = (path, n) # osRemove path files"

text \<open>\<^verbatim>\<open>os.ReadFile\<close>: an error (here \<open>None\<close>) unless the name is a regular file.\<close>

definition osReadFile :: "fs \<Rightarrow> string \<Rightarrow> string option" where
  "osReadFile files path =
     (case lookup files path of
        Some (File bytes) \<Rightarrow> Some bytes
      | Some Dir \<Rightarrow> None
      | None \<Rightarrow> None)"

text \<open>
  \<^verbatim>\<open>os.Rename\<close> of a temp file onto the final path: the old name disappears and the new
  name holds what the old one held.
\<close>

definition osRename :: "string \<Rightarrow> string \<Rightarrow> fs \<Rightarrow> fs" where
  "osRename old new files =
     (case lookup files old of
        None \<Rightarrow> files
      | Some n \<Rightarrow> writeNode new n (osRemove old files))"

section \<open>The integrity validator\<close>

text \<open>
  \<^verbatim>\<open>calculateChecksum\<close> has two error returns, both giving the empty string: the file
  cannot be opened, or the copy into the hasher fails. After a successful \<^verbatim>\<open>os.Stat\<close>
  these are failures of the environment, so the outcome of reading is an input of the
  check.
\<close>

datatype read_outcome = ReadOk | OpenFails | CopyFails

definition osOpen :: "read_outcome \<Rightarrow> fs \<Rightarrow> string \<Rightarrow> node option" where
  "osOpen rd files path =
     (case lookup files path of
        None \<Rightarrow> None
      | Some n \<Rightarrow> if rd = OpenFails then None else Some n)"

definition ioCopyAll :: "read_outcome \<Rightarrow> node \<Rightarrow> string option" where
  "ioCopyAll rd n =
     (case n of
        Dir \<Rightarrow> None
      | File bytes \<Rightarrow> if rd = CopyFails then None else Some bytes)"

text \<open>
  The digest \<open>H\<close> stands for \<^verbatim>\<open>fmt.Sprintf("%x", sha256(bytes))\<close>; every result below
  holds for any function in its place.
\<close>

definition calculateChecksum ::
  "(string \<Rightarrow> string) \<Rightarrow> read_outcome \<Rightarrow> fs \<Rightarrow> string \<Rightarrow> string" where
  "calculateChecksum H rd files path =
     (case osOpen rd files path of
        None \<Rightarrow> []
      | Some file \<Rightarrow>
          (case ioCopyAll rd file of
             None \<Rightarrow> []
           | Some bytes \<Rightarrow> H bytes))"

text \<open>
  \<^verbatim>\<open>isFileComplete\<close> returns its verdict together with the tree it leaves behind.
  \<open>G\<close> stands for \<^verbatim>\<open>filepath.Glob\<close>: the names of the tree that match a pattern; its
  error is dropped by the source, and only the number of matches is looked at.
\<close>

definition tempPattern :: "string \<Rightarrow> string" where
  "tempPattern path = path @ ''.tmp.*''"

definition checksumPathOf :: "string \<Rightarrow> string" where
  "checksumPathOf path = path @ ''.sha256''"

definition isFileComplete ::
  "(string \<Rightarrow> string) \<Rightarrow> (fs \<Rightarrow> string \<Rightarrow> string list) \<Rightarrow> read_outcome \<Rightarrow> fs \<Rightarrow> string
     \<Rightarrow> bool \<times> fs" where
  "isFileComplete H G rd files path =
     (case lookup files path of
        None \<Rightarrow> (False, files)
      | Some Dir \<Rightarrow> (False, files)
      | Some (File bytes) \<Rightarrow>
          if length bytes = 0 then (False, files)
          else if length (G files (tempPattern path)) > 0 then (False, files)
          else
            (case osReadFile files (checksumPathOf path) of
               Some expectedChecksum \<Rightarrow>
                 if calculateChecksum H rd files path \<noteq> expectedChecksum
                 then (False, osRemove (checksumPathOf path) (osRemove path files))
                 else (True, files)
             | None \<Rightarrow> (True, files)))"

section \<open>Glob patterns\<close>

text \<open>
  \<^verbatim>\<open>filepath.Glob\<close> as the completeness check uses it. A pattern is a sequence of
  terms: \<^verbatim>\<open>*\<close> matches any run of characters other than the separator, \<^verbatim>\<open>?\<close> one such
  character, a class \<^verbatim>\<open>[...]\<close> (negated by a leading \<^verbatim>\<open>^\<close>) one such character in
  or out of its ranges, a backslash makes the next character literal, and any other
  character matches itself. A malformed pattern matches nothing: \<^verbatim>\<open>Glob\<close> returns
  \<^verbatim>\<open>ErrBadPattern\<close> with no names, and the source drops the error. \<^verbatim>\<open>Glob\<close> splits
  the pattern at its slashes before matching, so a slash that is escaped or stands in a
  class leaves a malformed part and nothing matches. Characters are bytes.
  \<^verbatim>\<open>getEsc\<close> and the loop over the ranges of a class follow the functions of the same
  names in the library.
\<close>

datatype gterm = Star | AnyChar | Lit char | Class bool "(char \<times> char) list"

definition backslash :: char where
  "backslash = CHR 0x5C"

fun getEsc :: "string \<Rightarrow> (char \<times> string) option" where
  "getEsc [] = None"
| "getEsc (c # cs) =
     (if c = CHR ''-'' \<or> c = CHR '']'' then None
      else if c = backslash then
        (case cs of
           [] \<Rightarrow> None
         | d # ds \<Rightarrow> if ds = [] then None else Some (d, ds))
      else if cs = [] then None
      else Some (c, cs))"

lemma getEsc_shorter: "getEsc chunk = Some (r, rest) \<Longrightarrow> length rest < length chunk"
  by (cases chunk) (auto split: if_splits list.splits)

function parseRanges :: "string \<Rightarrow> (char \<times> char) list \<Rightarrow> ((char \<times> char) list \<times> string) option" where
  "parseRanges chunk ranges =
     (if chunk \<noteq> [] \<and> hd chunk = CHR '']'' \<and> ranges \<noteq> [] then Some (rev ranges, tl chunk)
      else
        (case getEsc chunk of
           None \<Rightarrow> None
         | Some (lo, chunk1) \<Rightarrow>
             if chunk1 \<noteq> [] \<and> hd chunk1 = CHR ''-'' then
               (case getEsc (tl chunk1) of
                  None \<Rightarrow> None
                | Some (hi, chunk2) \<Rightarrow> parseRanges chunk2 ((lo, hi) # ranges))
             else parseRanges chunk1 ((lo, lo) # ranges)))"
  by pat_completeness auto
termination
proof (relation "measure (\<lambda>(chunk, ranges). length chunk)")
  show "wf (measure (\<lambda>(chunk, ranges). length chunk))" by simp
next
  fix chunk :: string and ranges :: "(char \<times> char) list" and x2 lo chunk1 x2a hi chunk2
  assume "getEsc chunk = Some x2" "(lo, chunk1) = x2" "getEsc (tl chunk1) = Some x2a" "(hi, chunk2) = x2a"
    "chunk1 \<noteq> [] \<and> hd chunk1 = CHR ''-''"
  then have "length chunk1 < length chunk" "length chunk2 < length (tl chunk1)"
    by (auto dest: getEsc_shorter)
  then show "((chunk2, (lo, hi) # ranges), chunk, ranges) \<in> measure (\<lambda>(chunk, ranges). length chunk)"
    by simp
next
  fix chunk :: string and ranges :: "(char \<times> char) list" and x2 lo chunk1
  assume "getEsc chunk = Some x2" "(lo, chunk1) = x2"
  then have "length chunk1 < length chunk"
    by (auto dest: getEsc_shorter)
  then show "((chunk1, (lo, lo) # ranges), chunk, ranges) \<in> measure (\<lambda>(chunk, ranges). length chunk)"
    by simp
qed

declare parseRanges.simps [simp del]

lemma parseRanges_shorter:
  "parseRanges chunk ranges = Some (rs, rest) \<Longrightarrow> length rest < length chunk"
proof (induction chunk ranges rule: parseRanges.induct)
  case (1 chunk ranges)
  show ?case
  proof (cases "chunk \<noteq> [] \<and> hd chunk = CHR '']'' \<and> ranges \<noteq> []")
    case True
    with "1.prems" show ?thesis
      by (subst (asm) parseRanges.simps) (cases chunk, auto)
  next
    case False
    with "1.prems" obtain lo chunk1 where esc: "getEsc chunk = Some (lo, chunk1)"
      by (subst (asm) parseRanges.simps) (auto split: option.splits)
    then have short: "length chunk1 < length chunk" by (rule getEsc_shorter)
    show ?thesis
    proof (cases "chunk1 \<noteq> [] \<and> hd chunk1 = CHR ''-''")
      case dash: True
      with "1.prems" False esc obtain hi chunk2
        where esc2: "getEsc (tl chunk1) = Some (hi, chunk2)"
          and rec: "parseRanges chunk2 ((lo, hi) # ranges) = Some (rs, rest)"
        by (subst (asm) parseRanges.simps) (auto split: option.splits)
      from "1.IH"(1) [OF False esc refl dash esc2 refl rec]
      have "length rest < length chunk2" .
      moreover from esc2 have "length chunk2 < length (tl chunk1)" by (rule getEsc_shorter)
      ultimately show ?thesis using short by simp
    next
      case nodash: False
      with "1.prems" False esc have rec: "parseRanges chunk1 ((lo, lo) # ranges) = Some (rs, rest)"
        by (subst (asm) parseRanges.simps) (auto split: option.splits)
      from "1.IH"(2) [OF False esc refl nodash rec] short show ?thesis by simp
    qed
  qed
qed


definition mentionsSep :: "(char \<times> char) list \<Rightarrow> bool" where
  "mentionsSep ranges = (\<exists>r \<in> set ranges. fst r = CHR ''/'' \<or> snd r = CHR ''/'')"

function parsePattern :: "string \<Rightarrow> gterm list option" where
  "parsePattern [] = Some []"
| "parsePattern (c # cs) =
     (if c = CHR ''*'' then map_option (Cons Star) (parsePattern cs)
      else if c = CHR ''?'' then map_option (Cons AnyChar) (parsePattern cs)
      else if c = backslash then
        (case cs of
           [] \<Rightarrow> None
         | d # ds \<Rightarrow>
             if d = CHR ''/'' then None else map_option (Cons (Lit d)) (parsePattern ds))
      else if c = CHR ''['' then
        (let negated = (cs \<noteq> [] \<and> hd cs = CHR ''^'');
             body = (if negated then tl cs else cs)
         in case parseRanges body [] of
              None \<Rightarrow> None
            | Some (ranges, rest) \<Rightarrow>
                if mentionsSep ranges then None
                else map_option (Cons (Class negated ranges)) (parsePattern rest))
      else map_option (Cons (Lit c)) (parsePattern cs))"
  by pat_completeness auto
termination
  by (relation "measure length")
     (auto dest!: parseRanges_shorter split: if_splits intro: less_SucI order.strict_trans)

declare parsePattern.simps [simp del]

fun inRanges :: "char \<Rightarrow> (char \<times> char) list \<Rightarrow> bool" where
  "inRanges c [] = False"
| "inRanges c ((lo, hi) # ranges) =
     (((of_char lo :: nat) \<le> of_char c \<and> (of_char c :: nat) \<le> of_char hi) \<or> inRanges c ranges)"

fun matchTerms :: "gterm list \<Rightarrow> string \<Rightarrow> bool" where
  "matchTerms [] name = (name = [])"
| "matchTerms (Star # ts) [] = matchTerms ts []"
| "matchTerms (Star # ts) (c # cs) =
     (matchTerms ts (c # cs) \<or> (c \<noteq> CHR ''/'' \<and> matchTerms (Star # ts) cs))"
| "matchTerms (AnyChar # ts) [] = False"
| "matchTerms (AnyChar # ts) (c # cs) = (c \<noteq> CHR ''/'' \<and> matchTerms ts cs)"
| "matchTerms (Lit l # ts) [] = False"
| "matchTerms (Lit l # ts) (c # cs) = (c = l \<and> matchTerms ts cs)"
| "matchTerms (Class negated ranges # ts) [] = False"
| "matchTerms (Class negated ranges # ts) (c # cs) =
     (c \<noteq> CHR ''/'' \<and> inRanges c ranges \<noteq> negated \<and> matchTerms ts cs)"

definition filepathMatch :: "string \<Rightarrow> string \<Rightarrow> bool" where
  "filepathMatch pattern name =
     (case parsePattern pattern of
        None \<Rightarrow> False
      | Some ts \<Rightarrow> matchTerms ts name)"

definition filepathGlob :: "fs \<Rightarrow> string \<Rightarrow> string list" where
  "filepathGlob tree pattern = filter (filepathMatch pattern) (map fst tree)"

definition plainChar :: "char \<Rightarrow> bool" where
  "plainChar c = (c \<noteq> CHR ''*'' \<and> c \<noteq> CHR ''?'' \<and> c \<noteq> CHR ''['' \<and> c \<noteq> backslash)"

section \<open>The upstream fetcher and the atomic committer\<close>

text \<open>\<^verbatim>\<open>Config\<close>: the two settings the core reads.\<close>

record config =
  StorageDir :: string
  UpstreamURL :: string

text \<open>
  What \<^verbatim>\<open>http.Get\<close> hands back: the status, the declared \<^verbatim>\<open>ContentLength\<close>
  (\<open>-1\<close> when the origin declares none), the bytes the body delivers, and whether the
  body ends in a read error instead of end-of-file.
\<close>

record response =
  StatusCode :: int
  ContentLength :: int
  Body :: string
  BodyFails :: bool

text \<open>
  Everything outside the program that one call of \<^verbatim>\<open>downloadFile\<close> depends on: the
  answer of the origin (\<open>None\<close> for a transport error), the outcome of each file
  operation whose error the source tests, and the two numbers of the temp suffix.
\<close>

record fill_env =
  httpGet :: "response option"
  mkdirOk :: bool
  createOk :: bool
  syncOk :: bool
  writeChecksumOk :: bool
  renameOk :: bool
  pid :: int
  unixNano :: int

text \<open>The state a request runs in: the storage tree and the log of origin contacts.\<close>

record world =
  files :: fs
  originLog :: "string list"

datatype dl_error =
    FetchError
  | ErrUpstreamNotFound
  | UpstreamStatus int
  | MkdirError
  | CreateTempError
  | DownloadError
  | IncompleteDownload int int
  | SyncError
  | RenameError

fun showNat :: "nat \<Rightarrow> string" where
  "showNat n =
     (if n < 10 then [''0123456789'' ! n]
      else showNat (n div 10) @ [''0123456789'' ! (n mod 10)])"

declare showNat.simps [simp del]

definition showInt :: "int \<Rightarrow> string" where
  "showInt i = (if i < 0 then CHR ''-'' # showNat (nat (- i)) else showNat (nat i))"

text \<open>\<^verbatim>\<open>generateTempSuffix\<close>: \<^verbatim>\<open>fmt.Sprintf("%d.%d", os.Getpid(), time.Now().UnixNano())\<close>.\<close>

definition generateTempSuffix :: "int \<Rightarrow> int \<Rightarrow> string" where
  "generateTempSuffix p t = showInt p @ ''.'' @ showInt t"

definition tempPathOf :: "string \<Rightarrow> string \<Rightarrow> string" where
  "tempPathOf localPath suffix = localPath @ ''.tmp.'' @ suffix"

text \<open>
  \<^verbatim>\<open>downloadFile\<close>. The deferred function runs on every return after the temp file
  was created: it removes the temp file unless \<^verbatim>\<open>success\<close> was set. A failed
  \<^verbatim>\<open>os.WriteFile\<close> of the sidecar is only logged. Directories made by
  \<^verbatim>\<open>os.MkdirAll\<close> are not entered into the tree: nothing below looks at them.
  The bytes hashed are the bytes written, so the checksum is the digest of the body.
  Log lines are left out.
\<close>

definition downloadFile ::
  "(string \<Rightarrow> string) \<Rightarrow> config \<Rightarrow> fill_env \<Rightarrow> world \<Rightarrow> string \<Rightarrow> string
     \<Rightarrow> dl_error option \<times> world" where
  "downloadFile H cfg env w localPath requestPath =
     (let upstreamURL = UpstreamURL cfg @ requestPath;
          w0 = w\<lparr>originLog := originLog w @ [upstreamURL]\<rparr>
      in case httpGet env of
           None \<Rightarrow> (Some FetchError, w0)
         | Some resp \<Rightarrow>
             if StatusCode resp = 404 then (Some ErrUpstreamNotFound, w0)
             else if StatusCode resp \<noteq> 200 then (Some (UpstreamStatus (StatusCode resp)), w0)
             else if \<not> mkdirOk env then (Some MkdirError, w0)
             else
               let tempPath = tempPathOf localPath (generateTempSuffix (pid env) (unixNano env))
               in if \<not> createOk env then (Some CreateTempError, w0)
                  else
                    let created = writeNode tempPath (File []) (files w0);
                        copied = writeNode tempPath (File (Body resp)) created;
                        written = int (length (Body resp));
                        failed = (\<lambda>e fl. (Some e, w0\<lparr>files := osRemove tempPath fl\<rparr>))
                    in if BodyFails resp then failed DownloadError copied
                       else if ContentLength resp > 0 \<and> written \<noteq> ContentLength resp
                         then failed (IncompleteDownload written (ContentLength resp)) copied
                       else if \<not> syncOk env then failed SyncError copied
                       else
                         let checksumPath = checksumPathOf localPath;
                             checksum = H (Body resp);
                             saved = (if writeChecksumOk env
                                      then writeNode checksumPath (File checksum) copied
                                      else copied)
                         in if \<not> renameOk env then failed RenameError saved
                            else (None, w0\<lparr>files := osRename tempPath localPath saved\<rparr>))"

section \<open>The request handler\<close>

datatype reply = ServeFile string | JSON nat

text \<open>
  One request sees three completeness checks, each with its own read outcome, and at most
  one fill.
\<close>

record request_env =
  read1 :: read_outcome
  read2 :: read_outcome
  read3 :: read_outcome
  fill :: fill_env

section \<open>Local paths\<close>

text \<open>
  \<^verbatim>\<open>filepath.Join\<close> joins its non-empty arguments with a slash and cleans the result.
  \<^verbatim>\<open>filepath.Clean\<close> works through the path elements from left to right: an empty
  element and \<^verbatim>\<open>.\<close> are dropped; \<^verbatim>\<open>..\<close> removes the element before it, is dropped at
  the top of a rooted path, and is kept at the front of a relative one. The elements kept
  so far are held most recent first. Paths are those of a Unix system: the separator is
  the slash and there is no volume name.
\<close>

fun splitSep :: "string \<Rightarrow> string list" where
  "splitSep [] = [[]]"
| "splitSep (c # cs) =
     (if c = CHR ''/'' then [] # splitSep cs
      else (case splitSep cs of
              [] \<Rightarrow> [[c]]
            | s # ss \<Rightarrow> (c # s) # ss))"

fun joinSep :: "string list \<Rightarrow> string" where
  "joinSep [] = []"
| "joinSep [s] = s"
| "joinSep (s # t # ss) = s @ CHR ''/'' # joinSep (t # ss)"

definition cleanStep :: "bool \<Rightarrow> string list \<Rightarrow> string \<Rightarrow> string list" where
  "cleanStep rooted out seg =
     (if seg = [] \<or> seg = ''.'' then out
      else if seg = ''..'' then
        (case out of
           [] \<Rightarrow> if rooted then [] else [''..'']
         | newest # below \<Rightarrow> if newest = ''..'' then ''..'' # out else below)
      else seg # out)"

definition isRooted :: "string \<Rightarrow> bool" where
  "isRooted path = (case path of [] \<Rightarrow> False | c # _ \<Rightarrow> c = CHR ''/'')"

definition cleanElems :: "string \<Rightarrow> string list" where
  "cleanElems path = rev (foldl (cleanStep (isRooted path)) [] (splitSep path))"

definition filepathClean :: "string \<Rightarrow> string" where
  "filepathClean path =
     (if path = [] then ''.''
      else if isRooted path then CHR ''/'' # joinSep (cleanElems path)
      else if cleanElems path = [] then ''.''
      else joinSep (cleanElems path))"

definition filepathJoin :: "string \<Rightarrow> string \<Rightarrow> string" where
  "filepathJoin a b =
     (if a \<noteq> [] then filepathClean (a @ ''/'' @ b)
      else if b \<noteq> [] then filepathClean b
      else [])"







section \<open>The request handler, continued\<close>

text \<open>
  \<^verbatim>\<open>proxyHandler\<close> for one request running alone; the lock it takes around the fill is
  the subject of the next section. The reply is either the local file handed to
  \<^verbatim>\<open>c.File\<close> or the status of a JSON error.
\<close>

definition proxyHandler ::
  "(string \<Rightarrow> string) \<Rightarrow> (fs \<Rightarrow> string \<Rightarrow> string list) \<Rightarrow> config \<Rightarrow> request_env \<Rightarrow> world
     \<Rightarrow> string \<Rightarrow> reply \<times> world" where
  "proxyHandler H G cfg env w requestPath =
     (let localPath = filepathJoin (StorageDir cfg) requestPath;
          (hit1, files1) = isFileComplete H G (read1 env) (files w) localPath
      in if hit1 then (ServeFile localPath, w\<lparr>files := files1\<rparr>)
         else
           let (hit2, files2) = isFileComplete H G (read2 env) files1 localPath
           in if hit2 then (ServeFile localPath, w\<lparr>files := files2\<rparr>)
              else
                (case downloadFile H cfg (fill env) (w\<lparr>files := files2\<rparr>) localPath requestPath of
                   (Some err, w3) \<Rightarrow>
                     if err = ErrUpstreamNotFound then (JSON 404, w3) else (JSON 502, w3)
                 | (None, w3) \<Rightarrow>
                     let (ok, files4) = isFileComplete H G (read3 env) (files w3) localPath
                     in if \<not> ok then (JSON 500, w3\<lparr>files := files4\<rparr>)
                        else (ServeFile localPath, w3\<lparr>files := files4\<rparr>)))"

section \<open>The key lock manager\<close>

text \<open>
  \<^verbatim>\<open>FileDownloader.locks\<close> is a \<^verbatim>\<open>sync.Map\<close> from local paths to mutex pointers. A
  mutex is known by its address; \<^verbatim>\<open>getFileLock\<close> allocates a new one on every call
  and \<^verbatim>\<open>LoadOrStore\<close> keeps it only when the path has no entry yet.
\<close>

record lock_table =
  locks :: "(string \<times> nat) list"
  nextMutex :: nat
  lockedMutexes :: "nat list"

definition getFileLock :: "lock_table \<Rightarrow> string \<Rightarrow> nat \<times> lock_table" where
  "getFileLock fd path =
     (let fresh = nextMutex fd;
          fd' = fd\<lparr>nextMutex := Suc fresh\<rparr>
      in case map_of (locks fd) path of
           Some actual \<Rightarrow> (actual, fd')
         | None \<Rightarrow> (fresh, fd'\<lparr>locks := (path, fresh) # locks fd\<rparr>))"

definition cleanupLock :: "lock_table \<Rightarrow> string \<Rightarrow> lock_table" where
  "cleanupLock fd path = fd\<lparr>locks := filter (\<lambda>e. fst e \<noteq> path) (locks fd)\<rparr>"

text \<open>\<^verbatim>\<open>Lock\<close> cannot proceed while the mutex is held (\<open>None\<close>); \<^verbatim>\<open>Unlock\<close> frees it.\<close>

definition mutexLock :: "lock_table \<Rightarrow> nat \<Rightarrow> lock_table option" where
  "mutexLock fd m =
     (if m \<in> set (lockedMutexes fd) then None
      else Some (fd\<lparr>lockedMutexes := m # lockedMutexes fd\<rparr>))"

definition mutexUnlock :: "lock_table \<Rightarrow> nat \<Rightarrow> lock_table" where
  "mutexUnlock fd m = fd\<lparr>lockedMutexes := removeAll m (lockedMutexes fd)\<rparr>"

text \<open>
  Where a request stands in the locked part of \<^verbatim>\<open>proxyHandler\<close>: before
  \<^verbatim>\<open>getFileLock\<close>; holding a mutex pointer, before \<^verbatim>\<open>Lock\<close> returns; past
  \<^verbatim>\<open>Lock\<close>, filling; past the deferred \<^verbatim>\<open>cleanupLock\<close>, which runs first; past the
  deferred \<^verbatim>\<open>Unlock\<close>.
\<close>

datatype stage = Arrived | Waiting nat | Filling nat | Leaving nat | Finished

record system =
  downloader :: lock_table
  requests :: "(string \<times> stage) list"

text \<open>One step of the request with index \<open>i\<close>; \<open>None\<close> when it cannot move.\<close>

definition step :: "nat \<Rightarrow> system \<Rightarrow> system option" where
  "step i s =
     (if i \<ge> length (requests s) then None
      else
        let (path, st) = requests s ! i;
            fd = downloader s
        in case st of
             Arrived \<Rightarrow>
               (case getFileLock fd path of
                  (m, fd') \<Rightarrow>
                    Some (s\<lparr>downloader := fd', requests := (requests s)[i := (path, Waiting m)]\<rparr>))
           | Waiting m \<Rightarrow>
               (case mutexLock fd m of
                  None \<Rightarrow> None
                | Some fd' \<Rightarrow>
                    Some (s\<lparr>downloader := fd', requests := (requests s)[i := (path, Filling m)]\<rparr>))
           | Filling m \<Rightarrow>
               Some (s\<lparr>downloader := cleanupLock fd path,
                       requests := (requests s)[i := (path, Leaving m)]\<rparr>)
           | Leaving m \<Rightarrow>
               Some (s\<lparr>downloader := mutexUnlock fd m,
                       requests := (requests s)[i := (path, Finished)]\<rparr>)
           | Finished \<Rightarrow> None)"

text \<open>An interleaving is the list of the indices of the requests that move, in order.\<close>

fun run :: "nat list \<Rightarrow> system \<Rightarrow> system option" where
  "run [] s = Some s"
| "run (i # sched) s = (case step i s of None \<Rightarrow> None | Some s' \<Rightarrow> run sched s')"

definition isFilling :: "stage \<Rightarrow> bool" where
  "isFilling st = (case st of Filling _ \<Rightarrow> True | _ \<Rightarrow> False)"

definition fillers :: "system \<Rightarrow> string \<Rightarrow> (string \<times> stage) list" where
  "fillers s path = filter (\<lambda>r. fst r = path \<and> isFilling (snd r)) (requests s)"

definition startSystem :: "string list \<Rightarrow> system" where
  "startSystem paths =
     \<lparr>downloader = \<lparr>locks = [], nextMutex = 0, lockedMutexes = []\<rparr>,
      requests = map (\<lambda>p. (p, Arrived)) paths\<rparr>"

section \<open>Parts of one request\<close>

text \<open>
  The pieces of \<^verbatim>\<open>proxyHandler\<close> that the results below speak about: the local path,
  the tree left by the two checks before the fill, whether both of them missed, and the
  outcome of the fill that follows a miss.
\<close>

definition localPathOf :: "config \<Rightarrow> string \<Rightarrow> string" where
  "localPathOf cfg requestPath = filepathJoin (StorageDir cfg) requestPath"

definition firstCheck ::
  "(string \<Rightarrow> string) \<Rightarrow> (fs \<Rightarrow> string \<Rightarrow> string list) \<Rightarrow> config \<Rightarrow> request_env \<Rightarrow> world
     \<Rightarrow> string \<Rightarrow> bool \<times> fs" where
  "firstCheck H G cfg env w requestPath =
     isFileComplete H G (read1 env) (files w) (localPathOf cfg requestPath)"

definition lockedCheck ::
  "(string \<Rightarrow> string) \<Rightarrow> (fs \<Rightarrow> string \<Rightarrow> string list) \<Rightarrow> config \<Rightarrow> request_env \<Rightarrow> world
     \<Rightarrow> string \<Rightarrow> bool \<times> fs" where
  "lockedCheck H G cfg env w requestPath =
     isFileComplete H G (read2 env) (snd (firstCheck H G cfg env w requestPath))
       (localPathOf cfg requestPath)"

definition cacheMiss ::
  "(string \<Rightarrow> string) \<Rightarrow> (fs \<Rightarrow> string \<Rightarrow> string list) \<Rightarrow> config \<Rightarrow> request_env \<Rightarrow> world
     \<Rightarrow> string \<Rightarrow> bool" where
  "cacheMiss H G cfg env w requestPath =
     (\<not> fst (firstCheck H G cfg env w requestPath)
      \<and> \<not> fst (lockedCheck H G cfg env w requestPath))"

definition fillOutcome ::
  "(string \<Rightarrow> string) \<Rightarrow> (fs \<Rightarrow> string \<Rightarrow> string list) \<Rightarrow> config \<Rightarrow> request_env \<Rightarrow> world
     \<Rightarrow> string \<Rightarrow> dl_error option \<times> world" where
  "fillOutcome H G cfg env w requestPath =
     downloadFile H cfg (fill env)
       (w\<lparr>files := snd (lockedCheck H G cfg env w requestPath)\<rparr>)
       (localPathOf cfg requestPath) requestPath"

definition verifyCheck ::
  "(string \<Rightarrow> string) \<Rightarrow> (fs \<Rightarrow> string \<Rightarrow> string list) \<Rightarrow> config \<Rightarrow> request_env \<Rightarrow> world
     \<Rightarrow> string \<Rightarrow> bool \<times> fs" where
  "verifyCheck H G cfg env w requestPath =
     isFileComplete H G (read3 env) (files (snd (fillOutcome H G cfg env w requestPath)))
       (localPathOf cfg requestPath)"

text \<open>The temp file of a fill, and whether the fill gets as far as creating it.\<close>

definition tempPathIn :: "fill_env \<Rightarrow> string \<Rightarrow> string" where
  "tempPathIn env localPath =
     tempPathOf localPath (generateTempSuffix (pid env) (unixNano env))"

definition tempCreated :: "fill_env \<Rightarrow> bool" where
  "tempCreated env =
     (case httpGet env of
        None \<Rightarrow> False
      | Some resp \<Rightarrow> StatusCode resp = 200 \<and> mkdirOk env \<and> createOk env)"

section \<open>Concrete instances\<close>

text \<open>
  A digest and a glob to run the definitions on. The digest marks its input; the glob
  returns the names that extend the pattern's text before its final star by characters
  other than a slash, which is what \<^verbatim>\<open>filepath.Glob\<close> returns for a path free of
  pattern characters.
\<close>

definition demoDigest :: "string \<Rightarrow> string" where
  "demoDigest bytes = CHR ''#'' # bytes"

definition literalGlob :: "fs \<Rightarrow> string \<Rightarrow> string list" where
  "literalGlob tree pattern =
     (let stem = butlast pattern
      in filter (\<lambda>name. take (length stem) name = stem
                        \<and> CHR ''/'' \<notin> set (drop (length stem) name))
           (map fst tree))"

definition demoConfig :: config where
  "demoConfig = \<lparr>StorageDir = ''./storage'', UpstreamURL = ''https://mirror.example''\<rparr>"

definition okResponse :: "string \<Rightarrow> int \<Rightarrow> response" where
  "okResponse bytes declared =
     \<lparr>StatusCode = 200, ContentLength = declared, Body = bytes, BodyFails = False\<rparr>"

definition smoothFill :: "response \<Rightarrow> fill_env" where
  "smoothFill resp =
     \<lparr>httpGet = Some resp, mkdirOk = True, createOk = True, syncOk = True,
      writeChecksumOk = True, renameOk = True, pid = 42, unixNano = 17\<rparr>"

definition smoothRequest :: "response \<Rightarrow> request_env" where
  "smoothRequest resp =
     \<lparr>read1 = ReadOk, read2 = ReadOk, read3 = ReadOk, fill = smoothFill resp\<rparr>"

definition emptyWorld :: world where
  "emptyWorld = \<lparr>files = [], originLog = []\<rparr>"

definition soundTree :: fs where
  "soundTree = [(''storage/a'', File ''xy''), (''storage/a.sha256'', File ''#xy'')]"

definition emptySidecarTree :: fs where
  "emptySidecarTree = [(''storage/a'', File ''xy''), (''storage/a.sha256'', File [])]"


definition corruptTree :: fs where
  "corruptTree = [(''storage/a'', File ''xz''), (''storage/a.sha256'', File ''#xy'')]"

section \<open>Facts about the storage tree\<close>

lemma lookup_osRemove:
  "lookup (osRemove p tree) q = (if q = p then None else lookup tree q)"
  unfolding lookup_def osRemove_def
  by (induction tree) auto

lemma lookup_writeNode:
  "lookup (writeNode p n tree) q = (if q = p then Some n else lookup tree q)"
  using lookup_osRemove [of p tree q]
  by (simp add: writeNode_def lookup_def)

lemma lookup_osRename:
  "lookup tree old = Some n \<Longrightarrow>
   lookup (osRename old new tree) q =
     (if q = new then Some n else if q = old then None else lookup tree q)"
  by (simp add: osRename_def lookup_writeNode lookup_osRemove)

lemma checksumPath_neq_path: "checksumPathOf path \<noteq> path"
  by (simp add: checksumPathOf_def)

lemma tempPath_neq_path: "tempPathOf path suffix \<noteq> path"
  by (simp add: tempPathOf_def)

lemma tempPath_neq_checksumPath: "tempPathOf path suffix \<noteq> checksumPathOf path"
  by (simp add: tempPathOf_def checksumPathOf_def)

section \<open>Facts about paths\<close>




























section \<open>Facts about glob patterns\<close>

lemma parsePattern_plain_step:
  "plainChar c \<Longrightarrow> parsePattern (c # cs) = map_option (Cons (Lit c)) (parsePattern cs)"
  by (subst parsePattern.simps) (simp add: plainChar_def)

lemma parsePattern_plain:
  "\<forall>c \<in> set p. plainChar c \<Longrightarrow>
   parsePattern (p @ q) = map_option (\<lambda>ts. map Lit p @ ts) (parsePattern q)"
proof (induction p)
  case Nil
  then show ?case by (simp add: option.map_ident)
next
  case (Cons a p)
  then show ?case
    by (simp add: parsePattern_plain_step option.map_comp comp_def)
qed

lemma matchTerms_lits:
  "matchTerms (map Lit p @ ts) name \<longleftrightarrow> (\<exists>rest. name = p @ rest \<and> matchTerms ts rest)"
proof (induction p arbitrary: name)
  case Nil
  then show ?case by simp
next
  case (Cons a p)
  then show ?case by (cases name) auto
qed

lemma matchTerms_star: "matchTerms [Star] name \<longleftrightarrow> CHR ''/'' \<notin> set name"
  by (induction name) auto

lemma parse_tail: "parsePattern ''.tmp.*'' = Some (map Lit ''.tmp.'' @ [Star])"
  by code_simp

lemma tempPattern_plain:
  assumes "\<forall>c \<in> set path. plainChar c"
  shows "filepathMatch (path @ ''.tmp.*'') name
           \<longleftrightarrow> (\<exists>s. name = path @ ''.tmp.'' @ s \<and> CHR ''/'' \<notin> set s)"
proof -
  have "parsePattern (path @ ''.tmp.*'') = Some (map Lit path @ map Lit ''.tmp.'' @ [Star])"
    unfolding parsePattern_plain [OF assms] parse_tail by simp
  then have "filepathMatch (path @ ''.tmp.*'') name
      \<longleftrightarrow> matchTerms (map Lit (path @ ''.tmp.'') @ [Star]) name"
    by (simp add: filepathMatch_def)
  also have "\<dots> \<longleftrightarrow> (\<exists>s. name = (path @ ''.tmp.'') @ s \<and> matchTerms [Star] s)"
    by (rule matchTerms_lits)
  finally show ?thesis by (simp add: matchTerms_star)
qed


section \<open>Facts about the completeness check\<close>

lemma calculateChecksum_failed:
  "rd \<noteq> ReadOk \<Longrightarrow> calculateChecksum H rd tree path = []"
  by (cases rd)
     (auto simp: calculateChecksum_def osOpen_def ioCopyAll_def
           split: option.splits node.splits)

lemma isFileComplete_absent:
  "lookup tree path = None \<Longrightarrow> isFileComplete H G rd tree path = (False, tree)"
  by (simp add: isFileComplete_def)

lemma isFileComplete_empty_file:
  "lookup tree path = Some (File []) \<Longrightarrow> isFileComplete H G rd tree path = (False, tree)"
  by (simp add: isFileComplete_def)

lemma isFileComplete_mismatch:
  assumes "lookup tree path = Some (File bytes)" and "bytes \<noteq> []"
    and "G tree (tempPattern path) = []"
    and "osReadFile tree (checksumPathOf path) = Some expected"
    and "calculateChecksum H rd tree path \<noteq> expected"
  shows "isFileComplete H G rd tree path
           = (False, osRemove (checksumPathOf path) (osRemove path tree))"
  using assms by (simp add: isFileComplete_def)

lemma removed_both:
  "lookup (osRemove (checksumPathOf path) (osRemove path tree)) path = None
   \<and> lookup (osRemove (checksumPathOf path) (osRemove path tree)) (checksumPathOf path) = None"
  by (simp add: lookup_osRemove)




section \<open>Facts about the fill and the handler\<close>

lemma downloadFile_log:
  "originLog (snd (downloadFile H cfg env w localPath requestPath))
     = originLog w @ [UpstreamURL cfg @ requestPath]"
  by (simp add: downloadFile_def Let_def split: option.splits)

lemma proxyHandler_miss_log:
  assumes "isFileComplete H G (read1 env) (files w) (localPathOf cfg requestPath) = (False, files w)"
    and "isFileComplete H G (read2 env) (files w) (localPathOf cfg requestPath) = (False, files w)"
  shows "originLog (snd (proxyHandler H G cfg env w requestPath))
           = originLog w @ [UpstreamURL cfg @ requestPath]"
proof -
  let ?lp = "filepathJoin (StorageDir cfg) requestPath"
  let ?dl = "downloadFile H cfg (fill env) w ?lp requestPath"
  have log: "originLog (snd ?dl) = originLog w @ [UpstreamURL cfg @ requestPath]"
    by (rule downloadFile_log)
  obtain e w3 where dl: "?dl = (e, w3)" by (cases ?dl)
  obtain ok f4 where v: "isFileComplete H G (read3 env) (files w3) ?lp = (ok, f4)"
    by (cases "isFileComplete H G (read3 env) (files w3) ?lp")
  from log dl have "originLog w3 = originLog w @ [UpstreamURL cfg @ requestPath]" by simp
  with assms dl v show ?thesis
    by (cases e) (simp_all add: proxyHandler_def localPathOf_def Let_def)
qed

lemmas path_neqs =
  checksumPath_neq_path checksumPath_neq_path [symmetric]
  tempPath_neq_path tempPath_neq_path [symmetric]
  tempPath_neq_checksumPath tempPath_neq_checksumPath [symmetric]

lemma tempCreated_iff:
  "tempCreated env \<longleftrightarrow>
     (\<exists>resp. httpGet env = Some resp \<and> StatusCode resp = 200 \<and> mkdirOk env \<and> createOk env)"
  by (simp add: tempCreated_def split: option.splits)

lemma downloadFile_not_created:
  "\<not> tempCreated env \<Longrightarrow>
   files (snd (downloadFile H cfg env w localPath requestPath)) = files w
   \<and> fst (downloadFile H cfg env w localPath requestPath) \<noteq> None"
  by (auto simp: tempCreated_def downloadFile_def Let_def split: option.splits)

lemma downloadFile_temp_gone:
  "tempCreated env \<Longrightarrow>
   lookup (files (snd (downloadFile H cfg env w localPath requestPath)))
     (tempPathIn env localPath) = None"
  by (auto simp: tempCreated_def downloadFile_def Let_def tempPathIn_def lookup_osRemove
        lookup_osRename lookup_writeNode path_neqs
        split: option.splits)

lemma downloadFile_published:
  "fst (downloadFile H cfg env w localPath requestPath) = None \<Longrightarrow>
   \<exists>resp. httpGet env = Some resp
     \<and> lookup (files (snd (downloadFile H cfg env w localPath requestPath))) localPath
         = Some (File (Body resp))"
  by (auto simp: downloadFile_def Let_def lookup_osRemove
        lookup_osRename lookup_writeNode path_neqs
        split: option.splits if_splits)

lemma downloadFile_errors_after_create:
  "tempCreated env \<Longrightarrow>
   fst (downloadFile H cfg env w localPath requestPath) = Some e \<Longrightarrow>
   e = DownloadError \<or> (\<exists>a b. e = IncompleteDownload a b) \<or> e = SyncError \<or> e = RenameError"
  by (auto simp: tempCreated_def downloadFile_def Let_def split: option.splits if_splits)


lemma downloadFile_not_found_iff:
  "fst (downloadFile H cfg env w localPath requestPath) = Some ErrUpstreamNotFound \<longleftrightarrow>
     (\<exists>resp. httpGet env = Some resp \<and> StatusCode resp = 404)"
  by (auto simp: downloadFile_def Let_def split: option.splits if_splits)

lemma downloadFile_success_iff:
  "fst (downloadFile H cfg env w localPath requestPath) = None \<longleftrightarrow>
     (\<exists>resp. httpGet env = Some resp \<and> StatusCode resp = 200 \<and> mkdirOk env \<and> createOk env
        \<and> \<not> BodyFails resp
        \<and> \<not> (ContentLength resp > 0 \<and> int (length (Body resp)) \<noteq> ContentLength resp)
        \<and> syncOk env \<and> renameOk env)"
  by (auto simp: downloadFile_def Let_def split: option.splits if_splits)


lemma proxyHandler_parts:
  "proxyHandler H G cfg env w requestPath =
     (if fst (firstCheck H G cfg env w requestPath)
        then (ServeFile (localPathOf cfg requestPath),
              w\<lparr>files := snd (firstCheck H G cfg env w requestPath)\<rparr>)
      else if fst (lockedCheck H G cfg env w requestPath)
        then (ServeFile (localPathOf cfg requestPath),
              w\<lparr>files := snd (lockedCheck H G cfg env w requestPath)\<rparr>)
      else
        (case fst (fillOutcome H G cfg env w requestPath) of
           Some e \<Rightarrow>
             (if e = ErrUpstreamNotFound then JSON 404 else JSON 502,
              snd (fillOutcome H G cfg env w requestPath))
         | None \<Rightarrow>
             (if fst (verifyCheck H G cfg env w requestPath)
                then ServeFile (localPathOf cfg requestPath) else JSON 500,
              (snd (fillOutcome H G cfg env w requestPath))
                \<lparr>files := snd (verifyCheck H G cfg env w requestPath)\<rparr>)))"
  by (simp add: proxyHandler_def firstCheck_def lockedCheck_def fillOutcome_def verifyCheck_def
        localPathOf_def Let_def split: prod.splits option.splits)



section \<open>Evaluation on the concrete instances\<close>

lemma demo_localPath: "localPathOf demoConfig ''/a'' = ''storage/a''"
  by (simp add: localPathOf_def demoConfig_def filepathJoin_def filepathClean_def cleanElems_def
        isRooted_def cleanStep_def)

lemma demo_upstream: "UpstreamURL demoConfig = ''https://mirror.example''"
  by (simp add: demoConfig_def)

lemma demo_join: "filepathJoin (StorageDir demoConfig) ''/a'' = ''storage/a''"
  by (simp add: demoConfig_def filepathJoin_def filepathClean_def cleanElems_def
        isRooted_def cleanStep_def)

lemma demo_suffix: "generateTempSuffix 42 17 = ''42.17''"
  by code_simp


lemmas fill_eval =
  downloadFile_def Let_def smoothFill_def okResponse_def emptyWorld_def demo_suffix
  tempPathOf_def writeNode_def osRename_def osRemove_def lookup_def checksumPathOf_def
  demoDigest_def

lemmas handler_eval =
  proxyHandler_def demo_join smoothRequest_def isFileComplete_def osReadFile_def
  calculateChecksum_def osOpen_def ioCopyAll_def literalGlob_def tempPattern_def
  cacheMiss_def firstCheck_def lockedCheck_def fillOutcome_def verifyCheck_def demo_localPath

lemma demo_plain: "\<forall>c \<in> set ''storage/a''. plainChar c"
  by (simp add: plainChar_def backslash_def)

lemma demo_match:
  "filepathMatch ''storage/a.tmp.*'' name
     \<longleftrightarrow> (\<exists>s. name = ''storage/a.tmp.'' @ s \<and> CHR ''/'' \<notin> set s)"
  using tempPattern_plain [OF demo_plain, of name] by simp


lemmas validator_eval =
  lookup_def osReadFile_def calculateChecksum_def osOpen_def ioCopyAll_def osRemove_def
  demoDigest_def literalGlob_def tempPattern_def checksumPathOf_def isFileComplete_def

section \<open>The completeness check decides as specified\<close>




text \<open>
  Claim C4. When the object is a non-empty regular file, no temp artifact matches, the
  sidecar exists and the recomputed digest differs from what the sidecar holds, the check
  answers INCOMPLETE and leaves the tree without the object and without the sidecar; the
  next request for the same key, whatever its environment, contacts the origin.
\<close>

theorem corrupt_entry_removed:
  assumes "lookup tree (localPathOf cfg requestPath) = Some (File bytes)" and "length bytes \<noteq> 0"
    and "G tree (tempPattern (localPathOf cfg requestPath)) = []"
    and "osReadFile tree (checksumPathOf (localPathOf cfg requestPath)) = Some expected"
    and "calculateChecksum H rd tree (localPathOf cfg requestPath) \<noteq> expected"
  shows "fst (isFileComplete H G rd tree (localPathOf cfg requestPath)) = False
    \<and> snd (isFileComplete H G rd tree (localPathOf cfg requestPath))
         = osRemove (checksumPathOf (localPathOf cfg requestPath))
             (osRemove (localPathOf cfg requestPath) tree)
    \<and> lookup (snd (isFileComplete H G rd tree (localPathOf cfg requestPath)))
         (localPathOf cfg requestPath) = None
    \<and> lookup (snd (isFileComplete H G rd tree (localPathOf cfg requestPath)))
         (checksumPathOf (localPathOf cfg requestPath)) = None
    \<and> originLog (snd (proxyHandler H G cfg env
          \<lparr>files = snd (isFileComplete H G rd tree (localPathOf cfg requestPath)),
           originLog = contacts\<rparr> requestPath))
        = contacts @ [UpstreamURL cfg @ requestPath]"
proof -
  let ?lp = "localPathOf cfg requestPath"
  let ?after = "osRemove (checksumPathOf ?lp) (osRemove ?lp tree)"
  from assms have verdict: "isFileComplete H G rd tree ?lp = (False, ?after)"
    by (intro isFileComplete_mismatch) auto
  have gone: "lookup ?after ?lp = None" "lookup ?after (checksumPathOf ?lp) = None"
    using removed_both [of ?lp tree] by simp_all
  have "originLog (snd (proxyHandler H G cfg env \<lparr>files = ?after, originLog = contacts\<rparr> requestPath))
          = originLog \<lparr>files = ?after, originLog = contacts\<rparr> @ [UpstreamURL cfg @ requestPath]"
    by (rule proxyHandler_miss_log) (simp_all add: isFileComplete_absent gone)
  with verdict gone show ?thesis by simp
qed

theorem corrupt_entry_removed_witness:
  "lookup corruptTree (localPathOf demoConfig ''/a'') = Some (File ''xz'')
   \<and> literalGlob corruptTree (tempPattern (localPathOf demoConfig ''/a'')) = []
   \<and> osReadFile corruptTree (checksumPathOf (localPathOf demoConfig ''/a'')) = Some ''#xy''
   \<and> calculateChecksum demoDigest ReadOk corruptTree (localPathOf demoConfig ''/a'') = ''#xz''
   \<and> isFileComplete demoDigest literalGlob ReadOk corruptTree (localPathOf demoConfig ''/a'')
        = (False, [])
   \<and> originLog (snd (proxyHandler demoDigest literalGlob demoConfig
          (smoothRequest (okResponse ''xy'' 2))
          \<lparr>files = snd (isFileComplete demoDigest literalGlob ReadOk corruptTree
                           (localPathOf demoConfig ''/a'')),
           originLog = []\<rparr> ''/a''))
        = [''https://mirror.example/a'']"
  using corrupt_entry_removed
      [of corruptTree demoConfig "''/a''" "''xz''" literalGlob "''#xy''" demoDigest ReadOk
        "smoothRequest (okResponse ''xy'' 2)" "[]"]
  unfolding demo_localPath
  by (simp add: corruptTree_def validator_eval demo_upstream)

text \<open>
  Claim C8. Whenever the completeness check answers COMPLETE it hands back the tree it was
  given, and run again on that tree, under the same read outcome, it answers COMPLETE
  again.
\<close>

theorem complete_check_no_effect:
  assumes "isFileComplete H G rd tree path = (True, tree')"
  shows "tree' = tree \<and> isFileComplete H G rd tree' path = (True, tree')"
  using assms
  by (auto simp: isFileComplete_def split: option.splits node.splits if_splits)

theorem complete_check_no_effect_witness:
  "isFileComplete demoDigest literalGlob ReadOk soundTree ''storage/a'' = (True, soundTree)
   \<and> isFileComplete demoDigest literalGlob ReadOk
        (snd (isFileComplete demoDigest literalGlob ReadOk soundTree ''storage/a'')) ''storage/a''
        = (True, soundTree)"
proof -
  have first: "isFileComplete demoDigest literalGlob ReadOk soundTree ''storage/a'' = (True, soundTree)"
    by (simp add: soundTree_def validator_eval)
  from complete_check_no_effect [OF first] first show ?thesis by simp
qed

text \<open>
  Claim C10, as amended. When the check reaches the digest comparison (the object is a
  non-empty regular file and no temp artifact matches), the sidecar exists, and the object
  cannot be opened or cannot be read to its end, the digest computation returns the empty
  string. If the sidecar holds anything but the empty string, the check removes the object
  and the sidecar and answers INCOMPLETE, as it does for a corrupted object. If the
  sidecar is empty, the empty digest equals it: the check answers COMPLETE and removes
  nothing.
\<close>

theorem read_failure_outcome:
  assumes "lookup tree path = Some (File bytes)" and "length bytes \<noteq> 0"
    and "G tree (tempPattern path) = []"
    and "osReadFile tree (checksumPathOf path) = Some expected"
    and "rd = OpenFails \<or> rd = CopyFails"
  shows "calculateChecksum H rd tree path = []
    \<and> (expected \<noteq> [] \<longrightarrow>
          isFileComplete H G rd tree path
            = (False, osRemove (checksumPathOf path) (osRemove path tree))
          \<and> lookup (snd (isFileComplete H G rd tree path)) path = None
          \<and> lookup (snd (isFileComplete H G rd tree path)) (checksumPathOf path) = None)
    \<and> (expected = [] \<longrightarrow> isFileComplete H G rd tree path = (True, tree))"
proof -
  from assms(5) have empty: "calculateChecksum H rd tree path = []"
    by (intro calculateChecksum_failed) auto
  have removed: "isFileComplete H G rd tree path
      = (False, osRemove (checksumPathOf path) (osRemove path tree))" if "expected \<noteq> []"
    using assms that empty by (intro isFileComplete_mismatch) auto
  have kept: "isFileComplete H G rd tree path = (True, tree)" if "expected = []"
    using assms that empty by (simp add: isFileComplete_def)
  from empty removed kept removed_both [of path tree] show ?thesis by simp
qed

theorem read_failure_outcome_witness:
  "lookup soundTree ''storage/a'' = Some (File ''xy'')
   \<and> filepathGlob soundTree (tempPattern ''storage/a'') = []
   \<and> osReadFile soundTree (checksumPathOf ''storage/a'') = Some ''#xy''
   \<and> calculateChecksum demoDigest CopyFails soundTree ''storage/a'' = []
   \<and> isFileComplete demoDigest filepathGlob CopyFails soundTree ''storage/a'' = (False, [])
   \<and> isFileComplete demoDigest filepathGlob OpenFails soundTree ''storage/a'' = (False, [])"
proof -
  have glob: "filepathGlob soundTree (tempPattern ''storage/a'') = []"
    by (simp add: filepathGlob_def tempPattern_def demo_match soundTree_def)
  have obj: "lookup soundTree ''storage/a'' = Some (File ''xy'')"
    and side: "osReadFile soundTree (checksumPathOf ''storage/a'') = Some ''#xy''"
    by (simp_all add: soundTree_def lookup_def osReadFile_def checksumPathOf_def)
  from read_failure_outcome [of soundTree "''storage/a''" "''xy''" filepathGlob "''#xy''" CopyFails demoDigest]
    read_failure_outcome [of soundTree "''storage/a''" "''xy''" filepathGlob "''#xy''" OpenFails demoDigest]
    glob obj side
  show ?thesis
    by (simp add: osRemove_def checksumPathOf_def soundTree_def)
qed

text \<open>
  The claim as written says that the empty digest never equals what the sidecar holds. An
  empty sidecar (the state a failed write of the sidecar leaves, or a zero-byte object
  published under the sidecar's name) is a tree the check can meet: there a read failure
  gives COMPLETE and nothing is removed.
\<close>

theorem empty_sidecar_survives_read_failure:
  "lookup emptySidecarTree ''storage/a'' = Some (File ''xy'')
   \<and> filepathGlob emptySidecarTree (tempPattern ''storage/a'') = []
   \<and> osReadFile emptySidecarTree (checksumPathOf ''storage/a'') = Some []
   \<and> calculateChecksum demoDigest OpenFails emptySidecarTree ''storage/a'' = []
   \<and> isFileComplete demoDigest filepathGlob OpenFails emptySidecarTree ''storage/a''
        = (True, emptySidecarTree)
   \<and> isFileComplete demoDigest filepathGlob CopyFails emptySidecarTree ''storage/a''
        = (True, emptySidecarTree)"
proof -
  have glob: "filepathGlob emptySidecarTree (tempPattern ''storage/a'') = []"
    by (simp add: filepathGlob_def tempPattern_def demo_match emptySidecarTree_def)
  then show ?thesis
    by (simp add: isFileComplete_def emptySidecarTree_def lookup_def osReadFile_def
          checksumPathOf_def calculateChecksum_def osOpen_def ioCopyAll_def)
qed

section \<open>The fill\<close>



text \<open>
  Claim C7. Once a commit has created its temp file, the temp file is absent from the tree
  the commit leaves, whatever the outcome: the only errors then possible are the copy
  error, the length mismatch, the sync error and the rename error, and on success the
  final path holds the bytes of the body. A commit that fails before creating the temp
  file leaves the tree as it was.
\<close>

theorem temp_artifact_never_left:
  "(tempCreated env \<longrightarrow>
      lookup (files (snd (downloadFile H cfg env w localPath requestPath)))
        (tempPathIn env localPath) = None
      \<and> (\<forall>e. fst (downloadFile H cfg env w localPath requestPath) = Some e \<longrightarrow>
             e = DownloadError \<or> (\<exists>a b. e = IncompleteDownload a b)
             \<or> e = SyncError \<or> e = RenameError)
      \<and> (fst (downloadFile H cfg env w localPath requestPath) = None \<longrightarrow>
             (\<exists>resp. httpGet env = Some resp
                \<and> lookup (files (snd (downloadFile H cfg env w localPath requestPath))) localPath
                    = Some (File (Body resp)))))
   \<and> (\<not> tempCreated env \<longrightarrow>
        files (snd (downloadFile H cfg env w localPath requestPath)) = files w
        \<and> fst (downloadFile H cfg env w localPath requestPath) \<noteq> None)"
  using downloadFile_temp_gone [of env H cfg w localPath requestPath]
    downloadFile_errors_after_create [of env H cfg w localPath requestPath]
    downloadFile_published [of H cfg env w localPath requestPath]
    downloadFile_not_created [of env H cfg w localPath requestPath]
  by blast

theorem temp_artifact_never_left_witness:
  "tempCreated ((smoothFill (okResponse ''xy'' 2))\<lparr>renameOk := False\<rparr>)
   \<and> fst (downloadFile demoDigest demoConfig ((smoothFill (okResponse ''xy'' 2))\<lparr>renameOk := False\<rparr>)
          emptyWorld ''storage/a'' ''/a'') = Some RenameError
   \<and> lookup (files (snd (downloadFile demoDigest demoConfig
          ((smoothFill (okResponse ''xy'' 2))\<lparr>renameOk := False\<rparr>)
          emptyWorld ''storage/a'' ''/a''))) ''storage/a.tmp.42.17'' = None
   \<and> tempCreated (smoothFill (okResponse ''xy'' 2))
   \<and> files (snd (downloadFile demoDigest demoConfig (smoothFill (okResponse ''xy'' 2))
          emptyWorld ''storage/a'' ''/a''))
       = [(''storage/a'', File ''xy''), (''storage/a.sha256'', File ''#xy'')]"
  using temp_artifact_never_left [of "(smoothFill (okResponse ''xy'' 2))\<lparr>renameOk := False\<rparr>" demoDigest demoConfig
      emptyWorld "''storage/a''" "''/a''"]
    temp_artifact_never_left [of "smoothFill (okResponse ''xy'' 2)" demoDigest demoConfig
      emptyWorld "''storage/a''" "''/a''"]
  by (simp add: tempCreated_def tempPathIn_def fill_eval)


section \<open>The outcomes of a request\<close>

text \<open>
  Claim C5. The reply of the handler is the local file, or status 404, 502 or 500, and
  nothing else. It is the local file exactly on a cache hit (before or after the lock) or
  after a fill that succeeded and verified; 404 exactly when both checks missed and the
  origin answered 404; 502 exactly when both checks missed and the fill failed with any
  other error; 500 exactly when both checks missed, the fill succeeded and the check
  after it failed.
\<close>

theorem handler_outcomes:
  "(fst (proxyHandler H G cfg env w requestPath) = ServeFile (localPathOf cfg requestPath)
      \<or> fst (proxyHandler H G cfg env w requestPath) = JSON 404
      \<or> fst (proxyHandler H G cfg env w requestPath) = JSON 502
      \<or> fst (proxyHandler H G cfg env w requestPath) = JSON 500)
   \<and> (fst (proxyHandler H G cfg env w requestPath) = ServeFile (localPathOf cfg requestPath)
        \<longleftrightarrow> \<not> cacheMiss H G cfg env w requestPath
             \<or> (fst (fillOutcome H G cfg env w requestPath) = None
                \<and> fst (verifyCheck H G cfg env w requestPath)))
   \<and> (fst (proxyHandler H G cfg env w requestPath) = JSON 404
        \<longleftrightarrow> cacheMiss H G cfg env w requestPath
             \<and> (\<exists>resp. httpGet (fill env) = Some resp \<and> StatusCode resp = 404))
   \<and> (fst (proxyHandler H G cfg env w requestPath) = JSON 502
        \<longleftrightarrow> cacheMiss H G cfg env w requestPath
             \<and> (\<exists>e. fst (fillOutcome H G cfg env w requestPath) = Some e
                      \<and> e \<noteq> ErrUpstreamNotFound))
   \<and> (fst (proxyHandler H G cfg env w requestPath) = JSON 500
        \<longleftrightarrow> cacheMiss H G cfg env w requestPath
             \<and> fst (fillOutcome H G cfg env w requestPath) = None
             \<and> \<not> fst (verifyCheck H G cfg env w requestPath))"
proof -
  have nf: "fst (fillOutcome H G cfg env w requestPath) = Some ErrUpstreamNotFound
      \<longleftrightarrow> (\<exists>resp. httpGet (fill env) = Some resp \<and> StatusCode resp = 404)"
    unfolding fillOutcome_def by (rule downloadFile_not_found_iff)
  show ?thesis
    unfolding proxyHandler_parts cacheMiss_def nf [symmetric]
    by (cases "fst (fillOutcome H G cfg env w requestPath)") auto
qed


theorem handler_outcomes_witness:
  "fst (proxyHandler demoDigest literalGlob demoConfig (smoothRequest (okResponse ''xy'' 2))
          emptyWorld ''/a'') = ServeFile ''storage/a''
   \<and> fst (proxyHandler demoDigest literalGlob demoConfig (smoothRequest (okResponse ''xy'' 2))
          \<lparr>files = soundTree, originLog = []\<rparr> ''/a'') = ServeFile ''storage/a''
   \<and> fst (proxyHandler demoDigest literalGlob demoConfig
          (smoothRequest ((okResponse [] 0)\<lparr>StatusCode := 404\<rparr>)) emptyWorld ''/a'') = JSON 404
   \<and> fst (proxyHandler demoDigest literalGlob demoConfig
          (smoothRequest ((okResponse [] 0)\<lparr>StatusCode := 503\<rparr>)) emptyWorld ''/a'') = JSON 502
   \<and> fst (proxyHandler demoDigest literalGlob demoConfig
          ((smoothRequest (okResponse ''xy'' 2))\<lparr>read3 := CopyFails\<rparr>) emptyWorld ''/a'')
       = JSON 500"
  using handler_outcomes [of demoDigest literalGlob demoConfig "smoothRequest (okResponse ''xy'' 2)"
      emptyWorld "''/a''"]
  by (simp add: handler_eval fill_eval soundTree_def)

text \<open>
  Claim C9. When a request misses the cache and the origin answers 200 with an empty body
  (declaring length zero or none) and the local file operations succeed, the commit
  succeeds and the final path holds a zero-byte file, the check after the commit fails,
  and the reply is 500. The zero-byte file stays, so the next request for the key misses
  the cache again and contacts the origin again, whatever its environment.
\<close>

theorem empty_body_refetched:
  assumes miss: "cacheMiss H G cfg env w requestPath"
    and resp: "httpGet (fill env) = Some resp" "StatusCode resp = 200"
      "Body resp = []" "\<not> BodyFails resp" "ContentLength resp \<le> 0"
    and io: "mkdirOk (fill env)" "createOk (fill env)" "syncOk (fill env)" "renameOk (fill env)"
  shows "fst (fillOutcome H G cfg env w requestPath) = None
    \<and> lookup (files (snd (fillOutcome H G cfg env w requestPath))) (localPathOf cfg requestPath)
         = Some (File [])
    \<and> \<not> fst (verifyCheck H G cfg env w requestPath)
    \<and> fst (proxyHandler H G cfg env w requestPath) = JSON 500
    \<and> lookup (files (snd (proxyHandler H G cfg env w requestPath))) (localPathOf cfg requestPath)
         = Some (File [])
    \<and> cacheMiss H G cfg env' (snd (proxyHandler H G cfg env w requestPath)) requestPath
    \<and> originLog (snd (proxyHandler H G cfg env' (snd (proxyHandler H G cfg env w requestPath))
          requestPath))
        = originLog (snd (proxyHandler H G cfg env w requestPath)) @ [UpstreamURL cfg @ requestPath]"
proof -
  let ?lp = "localPathOf cfg requestPath"
  let ?fo = "fillOutcome H G cfg env w requestPath"
  let ?w' = "snd (proxyHandler H G cfg env w requestPath)"
  from resp io have ok: "fst ?fo = None"
    unfolding fillOutcome_def by (simp add: downloadFile_success_iff)
  from downloadFile_published [OF ok [unfolded fillOutcome_def]] resp
  have obj: "lookup (files (snd ?fo)) ?lp = Some (File [])"
    by (simp add: fillOutcome_def)
  have vc: "verifyCheck H G cfg env w requestPath = (False, files (snd ?fo))"
    unfolding verifyCheck_def by (rule isFileComplete_empty_file [OF obj])
  from miss ok vc have reply: "proxyHandler H G cfg env w requestPath
      = (JSON 500, (snd ?fo)\<lparr>files := files (snd ?fo)\<rparr>)"
    by (simp add: proxyHandler_parts cacheMiss_def)
  then have after: "lookup (files ?w') ?lp = Some (File [])"
    using obj by simp
  have again: "isFileComplete H G rd (files ?w') ?lp = (False, files ?w')" for rd
    by (rule isFileComplete_empty_file [OF after])
  have miss': "cacheMiss H G cfg env' ?w' requestPath"
    by (simp add: cacheMiss_def firstCheck_def lockedCheck_def again)
  have log: "originLog (snd (proxyHandler H G cfg env' ?w' requestPath))
      = originLog ?w' @ [UpstreamURL cfg @ requestPath]"
    by (rule proxyHandler_miss_log) (rule again)+
  from ok obj vc reply after miss' log show ?thesis by simp
qed


theorem empty_body_refetched_witness:
  "cacheMiss demoDigest literalGlob demoConfig (smoothRequest (okResponse [] 0)) emptyWorld ''/a''
   \<and> fst (proxyHandler demoDigest literalGlob demoConfig (smoothRequest (okResponse [] 0))
          emptyWorld ''/a'') = JSON 500
   \<and> lookup (files (snd (proxyHandler demoDigest literalGlob demoConfig
          (smoothRequest (okResponse [] 0)) emptyWorld ''/a''))) ''storage/a'' = Some (File [])
   \<and> originLog (snd (proxyHandler demoDigest literalGlob demoConfig
          (smoothRequest (okResponse ''xy'' 2))
          (snd (proxyHandler demoDigest literalGlob demoConfig (smoothRequest (okResponse [] 0))
                 emptyWorld ''/a'')) ''/a''))
       = [''https://mirror.example/a'', ''https://mirror.example/a'']"
  using empty_body_refetched
      [of demoDigest literalGlob demoConfig "smoothRequest (okResponse [] 0)" emptyWorld "''/a''"
        "okResponse [] 0" "smoothRequest (okResponse ''xy'' 2)"]
  by (simp add: handler_eval fill_eval demo_upstream)

section \<open>Local paths and the storage root\<close>





section \<open>The key lock manager under interleaving\<close>

text \<open>
  Claim C1. The claim is that at most one request is filling a given key at any time.
  Three requests for the same key, interleaved as follows, end with two of them filling
  at once. Request 0 gets mutex 0 and locks it; request 1 gets the same mutex and waits;
  request 0 runs its deferred \<^verbatim>\<open>cleanupLock\<close>, which deletes the entry of the key, and
  then unlocks; request 1 locks mutex 0; request 2 finds no entry, stores the fresh mutex
  2 and locks it.
\<close>

theorem two_requests_fill_same_key:
  "map_option requests
     (run [0, 0, 1, 0, 0, 1, 2, 2] (startSystem [''storage/a'', ''storage/a'', ''storage/a'']))
     = Some [(''storage/a'', Finished), (''storage/a'', Filling 0), (''storage/a'', Filling 2)]
   \<and> map_option (\<lambda>s. length (fillers s ''storage/a''))
       (run [0, 0, 1, 0, 0, 1, 2, 2] (startSystem [''storage/a'', ''storage/a'', ''storage/a'']))
     = Some 2"
  by code_simp

end
